theory Spec2Isabelle
  imports Complex_Main
begin

section \<open>Values\<close>

text \<open>
  The callback \<^verbatim>\<open>update_dashboard\<close> of \<^verbatim>\<open>app.py\<close> decodes an uploaded payload
  with \<^verbatim>\<open>json.loads\<close>, loads it into a pandas frame and derives five figures.

  A number is a \<^verbatim>\<open>float64\<close> value: the missing marker \<open>NaN\<close>, an infinity, or a
  finite value, kept as the rational it is.
\<close>

datatype number = NaN | NegInf | Fin rat | PosInf

text \<open>
  What \<^verbatim>\<open>json.loads\<close> returns. A Python \<^verbatim>\<open>int\<close> and a Python \<^verbatim>\<open>float\<close> are both
  \<open>JNum\<close>: Python compares and hashes them by value. A finite value that is no
  integer is a \<^verbatim>\<open>float\<close> already; an integer may be a Python \<^verbatim>\<open>int\<close> of any size.
  A \<^verbatim>\<open>dict\<close> is an association list in key order, read with \<open>map_of\<close>. A string is
  its sequence of UTF-8 bytes.
\<close>

datatype json =
    JNull
  | JBool bool
  | JNum number
  | JStr string
  | JArr "json list"
  | JObj "(string \<times> json) list"

text \<open>Python exceptions, all below \<^verbatim>\<open>Exception\<close>, with the text \<^verbatim>\<open>str(e)\<close> gives.\<close>

datatype exn =
    KeyError string
  | ValueError string
  | TypeError string
  | AttributeError string

definition quoted :: "string \<Rightarrow> string" where
  "quoted s = [CHR 0x27] @ s @ [CHR 0x27]"

fun str_exn :: "exn \<Rightarrow> string" where
  "str_exn (KeyError k) = quoted k"
| "str_exn (ValueError m) = m"
| "str_exn (TypeError m) = m"
| "str_exn (AttributeError m) = m"

section \<open>What is taken from the libraries as it is\<close>

text \<open>The labels of a counted column: a number, a string, or a list or dict as it is.\<close>

datatype ykey = KNum number | KStr string | KObj json

text \<open>The places where a library raises and only the wording of its message is open.\<close>

datatype failure =
    Not_Enough_Values
  | Too_Many_Values
  | Constructor_Not_Called
  | All_Scalar_Values
  | Unequal_Lengths
  | Mixing_Dicts
  | No_Len json
  | Not_Iterable json
  | Not_Comparable "ykey list"

text \<open>
  The behaviour of pandas, numpy and Python that the callback relies on and that is
  not written out below. Every definition takes it as the parameter \<open>lib\<close>, and
  every statement holds whatever it is. It stands for the libraries in one run:
  pandas chooses the type of a column from all of its cells, so what \<open>floatify\<close> and
  \<open>widen\<close> give may differ from one column to another.
  \<^item> \<open>floatify\<close>: the number \<^verbatim>\<open>pd.to_numeric\<close> reads from a string that has a letter,
    a digit or a byte beyond ASCII; \<open>None\<close> when it rejects the string.
  \<^item> \<open>widen\<close>: the value the normalized column holds for an integer beyond
    \<open>2 ^ 53\<close>: the integer itself in an integer column, its nearest \<^verbatim>\<open>float64\<close> in a
    float column. Which of the two the column is depends on its other cells.
  \<^item> \<open>dict_of\<close>: Python's \<^verbatim>\<open>dict(x)\<close> for a string, a list that is not empty,
    \<^verbatim>\<open>None\<close> or a number that is not finite: its string-keyed items, or the
    exception.
  \<^item> \<open>container_counts\<close>, \<open>container_sort\<close>: \<^verbatim>\<open>value_counts()\<close> of a column that
    holds a list or a dict, and \<^verbatim>\<open>sort_index()\<close> of labels among which there is one.
  \<^item> \<open>message\<close>: the wording of a library's exception.
\<close>

record library =
  floatify :: "string \<Rightarrow> number option"
  widen :: "rat \<Rightarrow> number"
  dict_of :: "json \<Rightarrow> exn + (string \<times> json) list"
  container_counts :: "json list \<Rightarrow> exn + (ykey \<times> nat) list"
  container_sort :: "(ykey \<times> nat) list \<Rightarrow> exn + (ykey \<times> nat) list"
  message :: "failure \<Rightarrow> string"

section \<open>The pandas operations the code calls\<close>

text \<open>
  \<^verbatim>\<open>pd.isna\<close> / \<^verbatim>\<open>Series.notna\<close>: \<^verbatim>\<open>None\<close> and \<^verbatim>\<open>NaN\<close> are missing, nothing else is.
\<close>

fun isna_num :: "number \<Rightarrow> bool" where
  "isna_num NaN = True"
| "isna_num _ = False"

fun isna :: "json \<Rightarrow> bool" where
  "isna JNull = True"
| "isna (JNum x) = isna_num x"
| "isna _ = False"

text \<open>
  A frame: its number of rows and its string-labelled columns. A column labelled by
  an integer (what pandas gives a list of scalars or of lists) is never looked up by
  the code and is not kept.
\<close>

record dataframe =
  nrows :: nat
  columns :: "(string \<times> json list) list"

text \<open>\<^verbatim>\<open>df[name]\<close>: a missing column raises \<^verbatim>\<open>KeyError\<close>.\<close>

definition getitem :: "dataframe \<Rightarrow> string \<Rightarrow> exn + json list" where
  "getitem df name =
     (case map_of (columns df) name of
        None \<Rightarrow> Inl (KeyError name)
      | Some col \<Rightarrow> Inr col)"

text \<open>The labels of a list in the order of their first appearance.\<close>

definition unique_first :: "'a list \<Rightarrow> 'a list" where
  "unique_first xs = rev (remdups (rev xs))"

text \<open>The cell of a record under a key: the value, or the \<open>NaN\<close> filler when absent.\<close>

definition cell :: "(string \<times> json) list \<Rightarrow> string \<Rightarrow> json" where
  "cell r k = (case map_of r k of None \<Rightarrow> JNum NaN | Some v \<Rightarrow> v)"

fun is_mapping :: "json \<Rightarrow> bool" where
  "is_mapping (JObj _) = True"
| "is_mapping _ = False"

fun is_listlike :: "json \<Rightarrow> bool" where
  "is_listlike (JArr _) = True"
| "is_listlike _ = False"

text \<open>A value that is neither a list nor a dict.\<close>

definition scalar :: "json \<Rightarrow> bool" where
  "scalar v = (\<not> is_listlike v \<and> \<not> is_mapping v)"

fun elements :: "json \<Rightarrow> json list" where
  "elements (JArr xs) = xs"
| "elements _ = []"

fun items :: "json \<Rightarrow> (string \<times> json) list" where
  "items (JObj kvs) = kvs"
| "items _ = []"

text \<open>
  \<^verbatim>\<open>pd.DataFrame(list of dicts)\<close>: one row per dict, one column per key of any dict,
  \<open>NaN\<close> where a dict lacks the key.
\<close>

definition frame_of_records :: "(string \<times> json) list list \<Rightarrow> dataframe" where
  "frame_of_records rows =
     \<lparr> nrows = length rows,
       columns = map (\<lambda>k. (k, map (\<lambda>r. cell r k) rows))
                     (unique_first (concat (map (map fst) rows))) \<rparr>"

text \<open>
  An element of a list of records as a record, the way \<^verbatim>\<open>dict(x)\<close> reads it: a dict
  is itself, the empty list is the empty record, and a finite number or a boolean
  cannot be iterated.
\<close>

fun as_record :: "library \<Rightarrow> json \<Rightarrow> exn + (string \<times> json) list" where
  "as_record lib (JObj kvs) = Inr kvs"
| "as_record lib (JArr []) = Inr []"
| "as_record lib (JBool b) = Inl (TypeError (message lib (Not_Iterable (JBool b))))"
| "as_record lib (JNum (Fin r)) = Inl (TypeError (message lib (Not_Iterable (JNum (Fin r)))))"
| "as_record lib v = dict_of lib v"

fun as_records :: "library \<Rightarrow> json list \<Rightarrow> exn + (string \<times> json) list list" where
  "as_records lib [] = Inr []"
| "as_records lib (v # vs) =
     (case as_record lib v of
        Inl e \<Rightarrow> Inl e
      | Inr r \<Rightarrow> (case as_records lib vs of Inl e \<Rightarrow> Inl e | Inr rs \<Rightarrow> Inr (r # rs)))"

text \<open>
  \<^verbatim>\<open>pd.DataFrame(dict)\<close>: one column per key. The row index comes from the values
  (pandas' \<^verbatim>\<open>_extract_index\<close>): lists must agree in length, dicts contribute the
  union of their keys, lists and dicts do not mix, and a scalar is repeated down the
  column; with scalars only there is no index.
\<close>

definition frame_of_dict :: "library \<Rightarrow> (string \<times> json) list \<Rightarrow> exn + dataframe" where
  "frame_of_dict lib kvs =
     (let keys = unique_first (map fst kvs);
          vals = map (cell kvs) keys;
          lists = filter is_listlike vals;
          dicts = filter is_mapping vals;
          lengths = remdups (map (length \<circ> elements) lists);
          index = unique_first (concat (map (map fst \<circ> items) dicts))
      in if keys = [] then Inr \<lparr> nrows = 0, columns = [] \<rparr>
         else if lists = [] \<and> dicts = [] then
           Inl (ValueError (message lib All_Scalar_Values))
         else if lists \<noteq> [] \<and> length lengths > 1 then
           Inl (ValueError (message lib Unequal_Lengths))
         else if lists \<noteq> [] \<and> dicts \<noteq> [] then
           Inl (ValueError (message lib Mixing_Dicts))
         else
           (let n = (if lists \<noteq> [] then hd lengths else length index)
            in Inr \<lparr> nrows = n,
                     columns = map (\<lambda>k. (k,
                        (case cell kvs k of
                           JArr xs \<Rightarrow> xs
                         | JObj d \<Rightarrow> map (cell d) index
                         | v \<Rightarrow> replicate n v))) keys \<rparr>))"

text \<open>
  \<^verbatim>\<open>pd.DataFrame(album_data)\<close> for every value \<^verbatim>\<open>json.loads\<close> can return.
  \<^item> \<^verbatim>\<open>None\<close> and \<^verbatim>\<open>[]\<close> give the empty frame, which has no column.
  \<^item> Any other scalar is refused by the constructor.
  \<^item> A list whose first element is a dict is read as records, every element
    through \<open>as_record\<close>.
  \<^item> A list whose first element is a list is read as rows of cells, and the length
    of every element is taken: a number, a boolean or \<^verbatim>\<open>None\<close> has none. The
    columns are labelled by integers.
  \<^item> A list whose first element is a scalar becomes one column, labelled 0.
\<close>

fun has_len :: "json \<Rightarrow> bool" where
  "has_len (JStr _) = True"
| "has_len (JArr _) = True"
| "has_len (JObj _) = True"
| "has_len _ = False"

fun DataFrame :: "library \<Rightarrow> json \<Rightarrow> exn + dataframe" where
  "DataFrame lib JNull = Inr \<lparr> nrows = 0, columns = [] \<rparr>"
| "DataFrame lib (JBool b) = Inl (ValueError (message lib Constructor_Not_Called))"
| "DataFrame lib (JNum x) = Inl (ValueError (message lib Constructor_Not_Called))"
| "DataFrame lib (JStr s) = Inl (ValueError (message lib Constructor_Not_Called))"
| "DataFrame lib (JObj kvs) = frame_of_dict lib kvs"
| "DataFrame lib (JArr []) = Inr \<lparr> nrows = 0, columns = [] \<rparr>"
| "DataFrame lib (JArr (x # xs)) =
     (if is_mapping x then
        (case as_records lib (x # xs) of
           Inl e \<Rightarrow> Inl e
         | Inr rows \<Rightarrow> Inr (frame_of_records rows))
      else if is_listlike x then
        (case filter (\<lambda>v. \<not> has_len v) xs of
           [] \<Rightarrow> Inr \<lparr> nrows = Suc (length xs), columns = [] \<rparr>
         | v # _ \<Rightarrow> Inl (TypeError (message lib (No_Len v))))
      else Inr \<lparr> nrows = Suc (length xs), columns = [] \<rparr>)"

text \<open>
  \<^verbatim>\<open>pd.to_numeric(column, errors='coerce')\<close>, one cell at a time.
  \<^item> \<^verbatim>\<open>None\<close> and the empty string are missing; a boolean is 1 or 0.
  \<^item> A number stays as it is when a \<^verbatim>\<open>float64\<close> holds it exactly: when it is not
    finite, not an integer, or an integer up to \<open>2 ^ 53\<close>. A larger integer becomes
    what \<open>widen\<close> gives.
  \<^item> A string with no letter, no digit and no byte beyond ASCII spells no number.
    Any other string goes through \<open>floatify\<close>.
  \<^item> A list or a dict cannot be parsed.
  With \<^verbatim>\<open>errors='coerce'\<close> every rejection becomes \<open>NaN\<close> instead of raising.
\<close>

definition exact64 :: "rat \<Rightarrow> bool" where
  "exact64 r = (of_int \<lfloor>r\<rfloor> \<noteq> r \<or> \<bar>r\<bar> \<le> 2 ^ 53)"

definition word_char :: "char \<Rightarrow> bool" where
  "word_char c =
     (let n = (of_char c :: nat)
      in (48 \<le> n \<and> n \<le> 57) \<or> (65 \<le> n \<and> n \<le> 90) \<or> (97 \<le> n \<and> n \<le> 122) \<or> 128 \<le> n)"

fun coerce :: "library \<Rightarrow> json \<Rightarrow> number" where
  "coerce lib JNull = NaN"
| "coerce lib (JBool b) = Fin (if b then 1 else 0)"
| "coerce lib (JNum (Fin r)) = (if exact64 r then Fin r else widen lib r)"
| "coerce lib (JNum x) = x"
| "coerce lib (JStr s) =
     (if s = [] then NaN
      else if \<not> list_ex word_char s then NaN
      else (case floatify lib s of None \<Rightarrow> NaN | Some x \<Rightarrow> x))"
| "coerce lib (JArr xs) = NaN"
| "coerce lib (JObj kvs) = NaN"

definition to_numeric :: "library \<Rightarrow> json list \<Rightarrow> number list" where
  "to_numeric lib col = map (coerce lib) col"

section \<open>process_album_data\<close>

text \<open>
  The processed frame: the frame as loaded, and the column
  \<^verbatim>\<open>US_peak_chart_post\<close> after \<^verbatim>\<open>to_numeric\<close>, which is read from here on.
\<close>

record processed =
  frame :: dataframe
  US_peak_chart_post :: "number list"

definition process_album_data :: "library \<Rightarrow> json \<Rightarrow> exn + processed" where
  "process_album_data lib album_data =
     (case DataFrame lib album_data of
        Inl e \<Rightarrow> Inl e
      | Inr df \<Rightarrow>
          (case getitem df ''US_peak_chart_post'' of
             Inl e \<Rightarrow> Inl e
           | Inr col \<Rightarrow>
               Inr \<lparr> frame = df, US_peak_chart_post = to_numeric lib col \<rparr>))"

section \<open>The callback\<close>

text \<open>\<^verbatim>\<open>df[mask]\<close>: the rows under a true mask entry, in order.\<close>

definition select :: "bool list \<Rightarrow> 'a list \<Rightarrow> 'a list" where
  "select keep xs = map snd (filter fst (zip keep xs))"

definition notna_mask :: "processed \<Rightarrow> bool list" where
  "notna_mask df = map (\<lambda>p. \<not> isna_num p) (US_peak_chart_post df)"

definition getitem_mask :: "processed \<Rightarrow> bool list \<Rightarrow> processed" where
  "getitem_mask df keep =
     \<lparr> frame = \<lparr> nrows = length (filter id keep),
                 columns = map (\<lambda>(k, col). (k, select keep col)) (columns (frame df)) \<rparr>,
       US_peak_chart_post = select keep (US_peak_chart_post df) \<rparr>"

text \<open>
  A figure is its traces and its layout title; \<^verbatim>\<open>go.Figure()\<close> has neither. Of a
  trace the data arguments are kept; names, colours and axis titles carry no data
  (the marker colour of the scatter trace repeats its \<open>y\<close>).
\<close>

datatype trace =
    Scatter "json list" "number list" "json list option" string
  | Bar "ykey list" "nat list"
  | Heatmap "number list list" "json list" "string list"
  | Treemap "string list" "string list" "nat list"

datatype figure = Figure "trace list" string

definition go_Figure :: figure where
  "go_Figure = Figure [] []"

text \<open>
  \<^verbatim>\<open>Series.value_counts()\<close> on scalars: one pair per distinct value with the number
  of its occurrences, most frequent first. pandas leaves the order of equally
  frequent values open; here they stay in order of first appearance.
\<close>

fun insort_by :: "('a \<Rightarrow> 'a \<Rightarrow> bool) \<Rightarrow> 'a \<Rightarrow> 'a list \<Rightarrow> 'a list" where
  "insort_by le x [] = [x]"
| "insort_by le x (y # ys) = (if le x y then x # y # ys else y # insort_by le x ys)"

definition sort_by :: "('a \<Rightarrow> 'a \<Rightarrow> bool) \<Rightarrow> 'a list \<Rightarrow> 'a list" where
  "sort_by le xs = foldr (insort_by le) xs []"

definition value_counts :: "'a list \<Rightarrow> ('a \<times> nat) list" where
  "value_counts xs =
     sort_by (\<lambda>a b. snd b \<le> snd a)
       (map (\<lambda>k. (k, count_list xs k)) (unique_first xs))"

text \<open>
  The values of a column as labels. Python takes \<^verbatim>\<open>True\<close> for 1 and a float for the
  integer it equals.
\<close>

fun hash_key :: "json \<Rightarrow> ykey" where
  "hash_key JNull = KNum NaN"
| "hash_key (JBool b) = KNum (Fin (if b then 1 else 0))"
| "hash_key (JNum x) = KNum x"
| "hash_key (JStr s) = KStr s"
| "hash_key (JArr xs) = KObj (JArr xs)"
| "hash_key (JObj kvs) = KObj (JObj kvs)"

text \<open>
  \<^verbatim>\<open>column.value_counts()\<close> with its default \<^verbatim>\<open>dropna=True\<close>: the missing values
  are not counted. A column of scalars is counted here; a column that holds a list
  or a dict is counted by the library.
\<close>

definition value_counts_column :: "library \<Rightarrow> json list \<Rightarrow> exn + (ykey \<times> nat) list" where
  "value_counts_column lib col =
     (if list_all scalar col
      then Inr (value_counts (map hash_key (filter (\<lambda>v. \<not> isna v) col)))
      else container_counts lib col)"

text \<open>
  The order of the labels. Numbers compare as IEEE numbers, strings by code point
  (which is the order of their UTF-8 bytes), and Python refuses to compare a string
  with a number.
\<close>

fun num_le :: "number \<Rightarrow> number \<Rightarrow> bool" where
  "num_le NaN _ = False"
| "num_le _ NaN = False"
| "num_le NegInf _ = True"
| "num_le _ PosInf = True"
| "num_le (Fin a) (Fin b) = (a \<le> b)"
| "num_le _ _ = False"

fun str_le :: "string \<Rightarrow> string \<Rightarrow> bool" where
  "str_le [] ys = True"
| "str_le (x # xs) [] = False"
| "str_le (x # xs) (y # ys) =
     (if x = y then str_le xs ys else (of_char x :: nat) < of_char y)"

fun is_KNum :: "ykey \<Rightarrow> bool" where
  "is_KNum (KNum _) = True"
| "is_KNum _ = False"

fun is_KStr :: "ykey \<Rightarrow> bool" where
  "is_KStr (KStr _) = True"
| "is_KStr _ = False"

fun is_KObj :: "ykey \<Rightarrow> bool" where
  "is_KObj (KObj _) = True"
| "is_KObj _ = False"

fun key_le :: "ykey \<Rightarrow> ykey \<Rightarrow> bool" where
  "key_le (KNum a) (KNum b) = num_le a b"
| "key_le (KStr a) (KStr b) = str_le a b"
| "key_le _ _ = False"

text \<open>
  \<^verbatim>\<open>Series.sort_index()\<close>: ascending by label. Numbers sort among themselves and
  strings among themselves; numbers together with strings cannot be compared.
  Labels among which there is a list or a dict are sorted by the library.
\<close>

definition sort_index :: "library \<Rightarrow> (ykey \<times> nat) list \<Rightarrow> exn + (ykey \<times> nat) list" where
  "sort_index lib s =
     (if list_ex (\<lambda>p. is_KObj (fst p)) s then container_sort lib s
      else if list_all (\<lambda>p. is_KNum (fst p)) s \<or> list_all (\<lambda>p. is_KStr (fst p)) s
      then Inr (sort_by (\<lambda>a b. key_le (fst a) (fst b)) s)
      else Inl (TypeError (message lib (Not_Comparable (map fst s)))))"

text \<open>The nested function of the treemap section.\<close>

definition get_performance_tier :: "number \<Rightarrow> string" where
  "get_performance_tier position =
     (if isna_num position then ''No Chart''
      else if num_le position (Fin 5) then ''Top 5''
      else if num_le position (Fin 10) then ''Top 10''
      else if num_le position (Fin 50) then ''Top 50''
      else ''No Chart'')"

text \<open>The five sections of the \<^verbatim>\<open>try\<close> block, in the order the code runs them.\<close>

definition line_fig :: "processed \<Rightarrow> exn + figure" where
  "line_fig charting_df =
     (case getitem (frame charting_df) ''album'' of
        Inl e \<Rightarrow> Inl e
      | Inr album \<Rightarrow>
          Inr (Figure [Scatter album (US_peak_chart_post charting_df) None ''lines+markers'']
                      ''Chart Performance Over Time''))"

definition release_freq :: "library \<Rightarrow> processed \<Rightarrow> exn + (ykey \<times> nat) list" where
  "release_freq lib df =
     (case getitem (frame df) ''year'' of
        Inl e \<Rightarrow> Inl e
      | Inr year \<Rightarrow>
          (case value_counts_column lib year of
             Inl e \<Rightarrow> Inl e
           | Inr counts \<Rightarrow> sort_index lib counts))"

definition bar_fig :: "library \<Rightarrow> processed \<Rightarrow> exn + figure" where
  "bar_fig lib df =
     (case release_freq lib df of
        Inl e \<Rightarrow> Inl e
      | Inr freq \<Rightarrow>
          Inr (Figure [Bar (map fst freq) (map snd freq)] ''Album Release Frequency''))"

definition scatter_fig :: "processed \<Rightarrow> exn + figure" where
  "scatter_fig charting_df =
     (case getitem (frame charting_df) ''year'' of
        Inl e \<Rightarrow> Inl e
      | Inr year \<Rightarrow>
          (case getitem (frame charting_df) ''album'' of
             Inl e \<Rightarrow> Inl e
           | Inr album \<Rightarrow>
               Inr (Figure [Scatter year (US_peak_chart_post charting_df) (Some album) ''markers'']
                           ''Year vs Chart Position'')))"

text \<open>\<^verbatim>\<open>values.reshape(-1, 1)\<close> puts every value in a row of its own.\<close>

definition reshape_rows_1 :: "'a list \<Rightarrow> 'a list list" where
  "reshape_rows_1 xs = map (\<lambda>x. [x]) xs"

definition heatmap_fig :: "processed \<Rightarrow> exn + figure" where
  "heatmap_fig charting_df =
     (case getitem (frame charting_df) ''year'' of
        Inl e \<Rightarrow> Inl e
      | Inr year \<Rightarrow>
          Inr (Figure [Heatmap (reshape_rows_1 (US_peak_chart_post charting_df)) year
                               [''Chart Position'']]
                      ''Year vs Chart Performance''))"

definition performance_tier :: "processed \<Rightarrow> string list" where
  "performance_tier df = map get_performance_tier (US_peak_chart_post df)"

definition treemap_fig :: "processed \<Rightarrow> figure" where
  "treemap_fig df =
     (let tier_counts = value_counts (performance_tier df)
      in Figure [Treemap (map fst tier_counts)
                         (replicate (length tier_counts) [])
                         (map snd tier_counts)]
                ''Album Performance Distribution'')"

text \<open>Lines 112 to 195: from the parsed value to the five figures.\<close>

definition build_figures :: "library \<Rightarrow> json \<Rightarrow> exn + figure list" where
  "build_figures lib album_data =
     (case process_album_data lib album_data of
        Inl e \<Rightarrow> Inl e
      | Inr df \<Rightarrow>
          (let charting_df = getitem_mask df (notna_mask df)
           in case line_fig charting_df of
                Inl e \<Rightarrow> Inl e
              | Inr line \<Rightarrow>
                  (case bar_fig lib df of
                     Inl e \<Rightarrow> Inl e
                   | Inr bar \<Rightarrow>
                       (case scatter_fig charting_df of
                          Inl e \<Rightarrow> Inl e
                        | Inr scatter \<Rightarrow>
                            (case heatmap_fig charting_df of
                               Inl e \<Rightarrow> Inl e
                             | Inr heatmap \<Rightarrow>
                                 Inr [line, bar, scatter, heatmap, treemap_fig df])))))"

text \<open>\<^verbatim>\<open>str.split(sep)\<close> with a one-character separator.\<close>

fun split :: "char \<Rightarrow> string \<Rightarrow> string list" where
  "split sep [] = [[]]"
| "split sep (c # cs) =
     (if c = sep then [] # split sep cs
      else (case split sep cs of
              [] \<Rightarrow> [[c]]
            | part # parts \<Rightarrow> (c # part) # parts))"

text \<open>
  The body of the \<^verbatim>\<open>try\<close>. The two-name assignment needs exactly two parts.
  \<open>loads\<close> stands for \<^verbatim>\<open>json.loads(base64.b64decode(s).decode('utf-8'))\<close>, three
  library calls that return the parsed value or raise; it is a parameter.
\<close>

definition try_body :: "library \<Rightarrow> (string \<Rightarrow> exn + json) \<Rightarrow> string \<Rightarrow> exn + figure list" where
  "try_body lib loads contents =
     (case split CHR '','' contents of
        [content_type, content_string] \<Rightarrow>
          (case loads content_string of
             Inl e \<Rightarrow> Inl e
           | Inr album_data \<Rightarrow> build_figures lib album_data)
      | [_] \<Rightarrow> Inl (ValueError (message lib Not_Enough_Values))
      | _ \<Rightarrow> Inl (ValueError (message lib Too_Many_Values)))"

text \<open>
  \<^verbatim>\<open>update_dashboard(contents, filename)\<close>: the five figures and the message. The
  upload component passes \<^verbatim>\<open>None\<close> or a string; \<^verbatim>\<open>filename\<close> is never read.
\<close>

definition update_dashboard ::
    "library \<Rightarrow> (string \<Rightarrow> exn + json) \<Rightarrow> string option \<Rightarrow> figure list \<times> string" where
  "update_dashboard lib loads contents =
     (case contents of
        None \<Rightarrow> (replicate 5 go_Figure, ''Please upload a JSON file'')
      | Some c \<Rightarrow>
          (if c = [] then (replicate 5 go_Figure, ''Please upload a JSON file'')
           else (case try_body lib loads c of
                   Inr figs \<Rightarrow> (figs, [])
                 | Inl e \<Rightarrow>
                     (replicate 5 go_Figure, ''Error processing file: '' @ str_exn e))))"

section \<open>Sample inputs\<close>

text \<open>
  An instance of the string parser for the examples: signed decimal integers, which
  the library reads the same way as long as a \<^verbatim>\<open>float64\<close> holds them exactly; the
  examples stay far below that. This instance rejects every other string.
\<close>

fun digits_value :: "nat \<Rightarrow> string \<Rightarrow> nat option" where
  "digits_value acc [] = Some acc"
| "digits_value acc (c # cs) =
     (if (48::nat) \<le> of_char c \<and> (of_char c :: nat) \<le> 57
      then digits_value (10 * acc + (of_char c - 48)) cs
      else None)"

fun floatify_integer :: "string \<Rightarrow> number option" where
  "floatify_integer [] = None"
| "floatify_integer (c # cs) =
     (if c = CHR ''-'' then
        (if cs = [] then None
         else map_option (\<lambda>n. Fin (- of_nat n)) (digits_value 0 cs))
      else map_option (\<lambda>n. Fin (of_nat n)) (digits_value 0 (c # cs)))"

text \<open>
  The library for the examples. They hold no integer beyond \<open>2 ^ 53\<close>, no list or
  dict where a record or a year is expected, and read no message, so only the
  parser is given; the other fields are left open.
\<close>

definition sample_library :: library where
  "sample_library =
     \<lparr> floatify = floatify_integer, widen = (\<lambda>r. undefined), dict_of = (\<lambda>v. undefined),
       container_counts = (\<lambda>col. undefined), container_sort = (\<lambda>s. undefined),
       message = (\<lambda>f. undefined) \<rparr>"

text \<open>The scenario of the specification: A charts at 3, B did not chart, C charts at 7.\<close>

definition scenario_records :: "(string \<times> json) list list" where
  "scenario_records =
     [[(''album'', JStr ''A''), (''year'', JNum (Fin 2000)), (''US_peak_chart_post'', JStr ''3'')],
      [(''album'', JStr ''B''), (''year'', JNum (Fin 2000)), (''US_peak_chart_post'', JStr ''-'')],
      [(''album'', JStr ''C''), (''year'', JNum (Fin 2001)), (''US_peak_chart_post'', JStr ''7'')]]"

text \<open>Two records, the second without a year.\<close>

definition missing_year_records :: "(string \<times> json) list list" where
  "missing_year_records =
     [[(''album'', JStr ''A''), (''year'', JNum (Fin 2000)), (''US_peak_chart_post'', JNum (Fin 3))],
      [(''album'', JStr ''B''), (''US_peak_chart_post'', JNum (Fin 7))]]"

text \<open>One record, without a year.\<close>

definition no_year_records :: "(string \<times> json) list list" where
  "no_year_records = [[(''album'', JStr ''A''), (''US_peak_chart_post'', JNum (Fin 3))]]"

text \<open>Two records, one year a number and the other a string.\<close>

definition mixed_year_records :: "(string \<times> json) list list" where
  "mixed_year_records =
     [[(''album'', JStr ''A''), (''year'', JNum (Fin 2000)), (''US_peak_chart_post'', JNum (Fin 3))],
      [(''album'', JStr ''B''), (''year'', JStr ''2001''), (''US_peak_chart_post'', JNum (Fin 7))]]"



text \<open>A single mapping from field names to columns.\<close>

definition column_mapping :: "(string \<times> json) list" where
  "column_mapping =
     [(''album'', JArr [JStr ''A'']), (''year'', JArr [JNum (Fin 2000)]),
      (''US_peak_chart_post'', JArr [JNum (Fin 3)])]"

text \<open>A single record, not in a list.\<close>

definition flat_mapping :: "(string \<times> json) list" where
  "flat_mapping =
     [(''album'', JStr ''A''), (''year'', JNum (Fin 2000)), (''US_peak_chart_post'', JNum (Fin 3))]"

text \<open>
  The base64 bodies of twelve texts, each written without spaces: \<^verbatim>\<open>[]\<close>, the
  scenario, the three collections of records above, the mapping to columns above,
  \<^verbatim>\<open>42\<close>, \<^verbatim>\<open>{}\<close>, \<^verbatim>\<open>{\<close>, \<^verbatim>\<open>[7]\<close>, the single record followed by 7 in a
  list, and the single record on its own; and a thirteenth body whose padding is
  missing.
\<close>

definition empty_body :: string where
  "empty_body = ''W10=''"

definition scenario_body :: string where
  "scenario_body = ''W3siYWxidW0iOiJBIiwieWVhciI6MjAwMCwiVVNfcGVha19jaGFydF9wb3N0IjoiMyJ9LHsiYWxidW0iOiJCIiwieWVhciI6MjAwMCwiVVNfcGVha19jaGFydF9wb3N0IjoiLSJ9LHsiYWxidW0iOiJDIiwieWVhciI6MjAwMSwiVVNfcGVha19jaGFydF9wb3N0IjoiNyJ9XQ==''"

definition missing_year_body :: string where
  "missing_year_body = ''W3siYWxidW0iOiJBIiwieWVhciI6MjAwMCwiVVNfcGVha19jaGFydF9wb3N0IjozfSx7ImFsYnVtIjoiQiIsIlVTX3BlYWtfY2hhcnRfcG9zdCI6N31d''"

definition no_year_body :: string where
  "no_year_body = ''W3siYWxidW0iOiJBIiwiVVNfcGVha19jaGFydF9wb3N0IjozfV0=''"

definition mixed_year_body :: string where
  "mixed_year_body = ''W3siYWxidW0iOiJBIiwieWVhciI6MjAwMCwiVVNfcGVha19jaGFydF9wb3N0IjozfSx7ImFsYnVtIjoiQiIsInllYXIiOiIyMDAxIiwiVVNfcGVha19jaGFydF9wb3N0Ijo3fV0=''"

definition column_mapping_body :: string where
  "column_mapping_body = ''eyJhbGJ1bSI6WyJBIl0sInllYXIiOlsyMDAwXSwiVVNfcGVha19jaGFydF9wb3N0IjpbM119''"

definition scalar_body :: string where
  "scalar_body = ''NDI=''"

definition empty_mapping_body :: string where
  "empty_mapping_body = ''e30=''"

definition open_brace_body :: string where
  "open_brace_body = ''ew==''"

definition number_list_body :: string where
  "number_list_body = ''Wzdd''"

definition number_after_record_body :: string where
  "number_after_record_body
     = ''W3siYWxidW0iOiJBIiwieWVhciI6MjAwMCwiVVNfcGVha19jaGFydF9wb3N0IjozfSw3XQ==''"

definition flat_mapping_body :: string where
  "flat_mapping_body = ''eyJhbGJ1bSI6IkEiLCJ5ZWFyIjoyMDAwLCJVU19wZWFrX2NoYXJ0X3Bvc3QiOjN9''"

definition unpadded_body :: string where
  "unpadded_body = ''e30''"

text \<open>
  What the decoder answers on these bodies: the parsed value, but the error of
  \<^verbatim>\<open>json.loads\<close> for \<^verbatim>\<open>{\<close> and the error of \<^verbatim>\<open>base64.b64decode\<close> for the body
  whose padding is missing.
\<close>

definition sample_answers :: "(string \<times> (exn + json)) list" where
  "sample_answers =
     [(empty_body, Inr (JArr [])),
      (scenario_body, Inr (JArr (map JObj scenario_records))),
      (missing_year_body, Inr (JArr (map JObj missing_year_records))),
      (no_year_body, Inr (JArr (map JObj no_year_records))),
      (mixed_year_body, Inr (JArr (map JObj mixed_year_records))),
      (column_mapping_body, Inr (JObj column_mapping)),
      (scalar_body, Inr (JNum (Fin 42))),
      (empty_mapping_body, Inr (JObj [])),
      (open_brace_body,
         Inl (ValueError ''Expecting property name enclosed in double quotes: line 1 column 2 (char 1)'')),
      (unpadded_body, Inl (ValueError ''Incorrect padding'')),
      (number_list_body, Inr (JArr [JNum (Fin 7)])),
      (number_after_record_body, Inr (JArr [JObj flat_mapping, JNum (Fin 7)])),
      (flat_mapping_body, Inr (JObj flat_mapping))]"

text \<open>
  An instance of the decoder for the examples: the answers above, and left open on
  every other body.
\<close>

definition sample_loads :: "string \<Rightarrow> exn + json" where
  "sample_loads body = (case map_of sample_answers body of Some answer \<Rightarrow> answer | None \<Rightarrow> undefined)"

text \<open>The contents the upload component delivers for a body.\<close>

definition data_uri :: "string \<Rightarrow> string" where
  "data_uri body = ''data:application/json;base64,'' @ body"

section \<open>Shapes of input\<close>

text \<open>Some record of the collection carries the field.\<close>

definition has_field :: "(string \<times> json) list list \<Rightarrow> string \<Rightarrow> bool" where
  "has_field rows k = list_ex (\<lambda>r. k \<in> set (map fst r)) rows"

text \<open>
  A plain value: \<^verbatim>\<open>null\<close>, a string, or a finite number that a \<^verbatim>\<open>float64\<close> holds
  exactly.
\<close>

fun plain :: "json \<Rightarrow> bool" where
  "plain JNull = True"
| "plain (JStr s) = True"
| "plain (JNum (Fin r)) = exact64 r"
| "plain _ = False"


text \<open>A year that is missing or a finite number.\<close>

fun year_or_missing :: "json \<Rightarrow> bool" where
  "year_or_missing JNull = True"
| "year_or_missing (JNum NaN) = True"
| "year_or_missing (JNum (Fin y)) = True"
| "year_or_missing _ = False"

text \<open>A finite number or a boolean.\<close>

fun finite_or_bool :: "json \<Rightarrow> bool" where
  "finite_or_bool (JBool b) = True"
| "finite_or_bool (JNum (Fin r)) = True"
| "finite_or_bool _ = False"

text \<open>
  Parsed values that are no collection of records: a scalar, a list whose first
  element is not a mapping, a list with a finite number or a boolean after the
  first element, and a single mapping of scalars.
\<close>

fun no_record_collection :: "json \<Rightarrow> bool" where
  "no_record_collection (JArr []) = False"
| "no_record_collection (JArr (x # xs)) = (\<not> is_mapping x \<or> list_ex finite_or_bool xs)"
| "no_record_collection (JObj kvs) = list_all (\<lambda>kv. scalar (snd kv)) kvs"
| "no_record_collection _ = True"

section \<open>Frames built from a collection of records\<close>

lemma set_unique_first: "set (unique_first xs) = set xs"
  by (simp add: unique_first_def)

lemma distinct_unique_first: "distinct (unique_first xs)"
  by (simp add: unique_first_def)

lemma map_of_keyed:
  "map_of (map (\<lambda>k. (k, g k)) ks) k = (if k \<in> set ks then Some (g k) else None)"
  by (induction ks) auto

lemma has_field_iff: "has_field rows k \<longleftrightarrow> (\<exists>r\<in>set rows. k \<in> fst ` set r)"
  by (auto simp: has_field_def list_ex_iff)

lemma getitem_records:
  "getitem (frame_of_records rows) k =
     (if has_field rows k then Inr (map (\<lambda>r. cell r k) rows) else Inl (KeyError k))"
  by (auto simp: getitem_def frame_of_records_def map_of_keyed set_unique_first has_field_iff)

lemma as_records_mappings: "as_records lib (map JObj rows) = Inr rows"
  by (induction rows) auto

lemma as_records_uniterable:
  "list_ex finite_or_bool vs \<Longrightarrow> \<exists>e. as_records lib vs = Inl e"
proof (induction vs)
  case Nil
  then show ?case by simp
next
  case (Cons v vs)
  show ?case
  proof (cases "finite_or_bool v")
    case True
    then show ?thesis by (cases v rule: finite_or_bool.cases) auto
  next
    case False
    with Cons show ?thesis by (auto split: sum.splits)
  qed
qed

lemma DataFrame_records: "DataFrame lib (JArr (map JObj rows)) = Inr (frame_of_records rows)"
proof (cases rows)
  case Nil
  then show ?thesis by (simp add: frame_of_records_def unique_first_def)
next
  case (Cons r rs)
  then show ?thesis using as_records_mappings [of lib "r # rs"] by simp
qed

lemma process_records:
  "process_album_data lib (JArr (map JObj rows)) =
     (if has_field rows ''US_peak_chart_post''
      then Inr \<lparr> frame = frame_of_records rows,
                 US_peak_chart_post = map (\<lambda>r. coerce lib (cell r ''US_peak_chart_post'')) rows \<rparr>
      else Inl (KeyError ''US_peak_chart_post''))"
  by (simp add: process_album_data_def DataFrame_records getitem_records to_numeric_def o_def)

lemma select_map: "select (map P xs) (map g xs) = map g (filter P xs)"
  by (induction xs) (auto simp: select_def)

lemma getitem_masked:
  "getitem (frame (getitem_mask df keep)) k =
     (case getitem (frame df) k of Inl e \<Rightarrow> Inl e | Inr col \<Rightarrow> Inr (select keep col))"
  by (simp add: getitem_def getitem_mask_def map_of_map split: option.splits)


section \<open>The figures of a collection of records\<close>

lemma notna_mask_records:
  "notna_mask \<lparr> frame = fr, US_peak_chart_post = map g rows \<rparr> = map (\<lambda>r. \<not> isna_num (g r)) rows"
  by (simp add: notna_mask_def)

lemma masked_position:
  "US_peak_chart_post (getitem_mask \<lparr> frame = fr, US_peak_chart_post = map g rows \<rparr> (map P rows))
     = map g (filter P rows)"
  by (simp add: getitem_mask_def select_map)

lemma line_fig_records:
  fixes lib rows
  defines "pos \<equiv> \<lambda>r. coerce lib (cell r ''US_peak_chart_post'')"
  defines "df \<equiv> \<lparr> frame = frame_of_records rows, US_peak_chart_post = map pos rows \<rparr>"
  shows "line_fig (getitem_mask df (notna_mask df)) =
     (if has_field rows ''album''
      then Inr (Figure [Scatter (map (\<lambda>r. cell r ''album'') (filter (\<lambda>r. \<not> isna_num (pos r)) rows))
                                (map pos (filter (\<lambda>r. \<not> isna_num (pos r)) rows))
                                None ''lines+markers'']
                       ''Chart Performance Over Time'')
      else Inl (KeyError ''album''))"
  unfolding df_def
  by (simp add: line_fig_def getitem_masked notna_mask_records masked_position
        getitem_records select_map)

lemma scatter_fig_records:
  fixes lib rows
  defines "pos \<equiv> \<lambda>r. coerce lib (cell r ''US_peak_chart_post'')"
  defines "df \<equiv> \<lparr> frame = frame_of_records rows, US_peak_chart_post = map pos rows \<rparr>"
  assumes "has_field rows ''album''" "has_field rows ''year''"
  shows "scatter_fig (getitem_mask df (notna_mask df)) =
      Inr (Figure [Scatter (map (\<lambda>r. cell r ''year'') (filter (\<lambda>r. \<not> isna_num (pos r)) rows))
                                (map pos (filter (\<lambda>r. \<not> isna_num (pos r)) rows))
                                (Some (map (\<lambda>r. cell r ''album'') (filter (\<lambda>r. \<not> isna_num (pos r)) rows)))
                                ''markers'']
                       ''Year vs Chart Position'')"
  unfolding df_def
  using assms(3,4) by (simp add: scatter_fig_def getitem_masked notna_mask_records masked_position
        getitem_records select_map)

lemma heatmap_fig_records:
  fixes lib rows
  defines "pos \<equiv> \<lambda>r. coerce lib (cell r ''US_peak_chart_post'')"
  defines "df \<equiv> \<lparr> frame = frame_of_records rows, US_peak_chart_post = map pos rows \<rparr>"
  assumes "has_field rows ''year''"
  shows "heatmap_fig (getitem_mask df (notna_mask df)) =
      Inr (Figure [Heatmap (reshape_rows_1 (map pos (filter (\<lambda>r. \<not> isna_num (pos r)) rows)))
                           (map (\<lambda>r. cell r ''year'') (filter (\<lambda>r. \<not> isna_num (pos r)) rows))
                           [''Chart Position'']]
                       ''Year vs Chart Performance'')"
  unfolding df_def
  using assms(3) by (simp add: heatmap_fig_def getitem_masked notna_mask_records masked_position
        getitem_records select_map)

lemma release_freq_records:
  "release_freq lib \<lparr> frame = frame_of_records rows, US_peak_chart_post = ps \<rparr> =
     (if has_field rows ''year''
      then (case value_counts_column lib (map (\<lambda>r. cell r ''year'') rows) of
              Inl e \<Rightarrow> Inl e
            | Inr counts \<Rightarrow> sort_index lib counts)
      else Inl (KeyError ''year''))"
  by (simp add: release_freq_def getitem_records)

lemma build_figures_records:
  fixes lib rows
  defines "pos \<equiv> \<lambda>r. coerce lib (cell r ''US_peak_chart_post'')"
  defines "charting \<equiv> filter (\<lambda>r. \<not> isna_num (pos r)) rows"
  shows "build_figures lib (JArr (map JObj rows)) =
     (if \<not> has_field rows ''US_peak_chart_post'' then Inl (KeyError ''US_peak_chart_post'')
      else if \<not> has_field rows ''album'' then Inl (KeyError ''album'')
      else if \<not> has_field rows ''year'' then Inl (KeyError ''year'')
      else (case value_counts_column lib (map (\<lambda>r. cell r ''year'') rows) of
              Inl e \<Rightarrow> Inl e
            | Inr counts \<Rightarrow>
               (case sort_index lib counts of
                  Inl e \<Rightarrow> Inl e
                | Inr freq \<Rightarrow>
                    Inr [Figure [Scatter (map (\<lambda>r. cell r ''album'') charting) (map pos charting)
                                   None ''lines+markers''] ''Chart Performance Over Time'',
                         Figure [Bar (map fst freq) (map snd freq)] ''Album Release Frequency'',
                         Figure [Scatter (map (\<lambda>r. cell r ''year'') charting) (map pos charting)
                                   (Some (map (\<lambda>r. cell r ''album'') charting)) ''markers'']
                                ''Year vs Chart Position'',
                         Figure [Heatmap (reshape_rows_1 (map pos charting))
                                   (map (\<lambda>r. cell r ''year'') charting) [''Chart Position'']]
                                ''Year vs Chart Performance'',
                         treemap_fig \<lparr> frame = frame_of_records rows,
                                       US_peak_chart_post = map pos rows \<rparr>])))"
  unfolding build_figures_def process_records pos_def charting_def
  by (simp add: Let_def line_fig_records bar_fig_def release_freq_records
        scatter_fig_records heatmap_fig_records split: sum.splits)

section \<open>Counting and sorting\<close>

lemma sum_insort_by:
  fixes x :: "'a \<times> nat"
  shows "sum_list (map snd (insort_by le x xs)) = snd x + sum_list (map snd xs)"
  by (induction xs) auto

lemma sum_sort_by:
  fixes xs :: "('a \<times> nat) list"
  shows "sum_list (map snd (sort_by le xs)) = sum_list (map snd xs)"
  unfolding sort_by_def by (induction xs) (auto simp: sum_insort_by)

lemma set_insort_by: "set (insort_by le x xs) = insert x (set xs)"
  by (induction xs) auto

lemma set_sort_by: "set (sort_by le xs) = set xs"
  unfolding sort_by_def by (induction xs) (auto simp: set_insort_by)

lemma sum_value_counts: "sum_list (map snd (value_counts xs)) = length xs"
proof -
  have "sum_list (map (count_list xs) (unique_first xs)) = sum (count_list xs) (set xs)"
    using sum_list_distinct_conv_sum_set [OF distinct_unique_first, of "count_list xs" xs]
    by (simp add: set_unique_first)
  also have "\<dots> = length xs"
    by (rule sum_count_set) auto
  finally show ?thesis
    by (simp add: value_counts_def sum_sort_by o_def)
qed

lemma keys_value_counts: "fst ` set (value_counts xs) = set xs"
  by (auto simp: value_counts_def set_sort_by set_unique_first image_iff)

lemma value_counts_scalars:
  assumes "\<forall>v\<in>set col. scalar v"
  shows "value_counts_column lib col
           = Inr (value_counts (map hash_key (filter (\<lambda>v. \<not> isna v) col)))"
  using assms by (simp add: value_counts_column_def list_all_iff)

lemma hash_key_scalar: "scalar v \<Longrightarrow> \<not> is_KObj (hash_key v)"
  by (cases v) (auto simp: scalar_def)

lemma scalar_counts_no_container:
  assumes "\<forall>v\<in>set col. scalar v"
  shows "\<not> list_ex (\<lambda>p. is_KObj (fst p))
            (value_counts (map hash_key (filter (\<lambda>v. \<not> isna v) col)))"
proof -
  have "\<forall>k\<in>fst ` set (value_counts (map hash_key (filter (\<lambda>v. \<not> isna v) col))). \<not> is_KObj k"
    using assms by (auto simp: keys_value_counts hash_key_scalar)
  then show ?thesis by (auto simp: list_ex_iff)
qed

lemma sum_sort_index_scalars:
  assumes "sort_index lib s = Inr freq" and "\<not> list_ex (\<lambda>p. is_KObj (fst p)) s"
  shows "sum_list (map snd freq) = sum_list (map snd s)"
  using assms by (auto simp: sort_index_def sum_sort_by split: if_splits)

lemma number_no_container: "is_KNum k \<Longrightarrow> \<not> is_KObj k"
  by (cases k) auto

lemma sort_index_numbers:
  assumes "\<forall>p\<in>set s. is_KNum (fst p)"
  shows "\<exists>freq. sort_index lib s = Inr freq"
proof -
  have "\<not> list_ex (\<lambda>p. is_KObj (fst p)) s"
    using assms by (auto simp: list_ex_iff dest: number_no_container)
  with assms show ?thesis by (simp add: sort_index_def list_all_iff)
qed


lemma figures_populated:
  assumes "build_figures lib v = Inr figs"
  shows "length figs = 5 \<and> go_Figure \<notin> set figs"
  using assms
  by (auto simp: build_figures_def Let_def line_fig_def bar_fig_def scatter_fig_def
        heatmap_fig_def treemap_fig_def go_Figure_def split: sum.splits)

text \<open>
  A frame that has the three columns, with years that are missing or finite numbers,
  gives the five figures.
\<close>

lemma year_or_missing_cases:
  "year_or_missing v \<Longrightarrow> isna v \<or> (\<exists>y. v = JNum (Fin y))"
  by (cases v rule: year_or_missing.cases) auto

lemma build_figures_succeeds:
  assumes p: "process_album_data lib v = Inr df"
      and a: "getitem (frame df) ''album'' = Inr ac"
      and y: "getitem (frame df) ''year'' = Inr yc"
      and n: "\<forall>c\<in>set yc. year_or_missing c"
  shows "\<exists>figs. build_figures lib v = Inr figs"
proof -
  let ?ks = "map hash_key (filter (\<lambda>v. \<not> isna v) yc)"
  have sc: "\<forall>c\<in>set yc. scalar c"
  proof
    fix c assume "c \<in> set yc"
    with n have "year_or_missing c" by blast
    then show "scalar c" by (cases c rule: year_or_missing.cases) (auto simp: scalar_def)
  qed
  have "\<forall>k\<in>set ?ks. is_KNum k"
  proof
    fix k assume "k \<in> set ?ks"
    then obtain c where c: "c \<in> set yc" "\<not> isna c" "k = hash_key c" by auto
    with n year_or_missing_cases [of c] obtain q where "c = JNum (Fin q)" by blast
    with c(3) show "is_KNum k" by simp
  qed
  have kn: "\<forall>k\<in>set ?ks. is_KNum k" by fact
  have "\<forall>p\<in>set (value_counts ?ks). is_KNum (fst p)"
  proof
    fix p assume "p \<in> set (value_counts ?ks)"
    then have "fst p \<in> fst ` set (value_counts ?ks)" by (rule imageI)
    then have "fst p \<in> set ?ks" by (simp only: keys_value_counts)
    with kn show "is_KNum (fst p)" by blast
  qed
  from sort_index_numbers [OF this] obtain freq where
    "sort_index lib (value_counts ?ks) = Inr freq" by blast
  with value_counts_scalars [OF sc] y have "\<exists>freq. release_freq lib df = Inr freq"
    by (simp add: release_freq_def)
  with p a y show ?thesis
    by (auto simp: build_figures_def Let_def line_fig_def bar_fig_def scatter_fig_def
          heatmap_fig_def getitem_masked)
qed


section \<open>The boundary\<close>


lemma try_body_two_parts:
  "split CHR '','' c = [t, body]
     \<Longrightarrow> try_body lib l c = (case l body of Inl e \<Rightarrow> Inl e | Inr v \<Rightarrow> build_figures lib v)"
  by (simp add: try_body_def)

lemma two_parts_nonempty: "split CHR '','' c = [t, body] \<Longrightarrow> c \<noteq> []"
  by auto

lemma update_dashboard_failure:
  assumes "c \<noteq> []" and "try_body lib l c = Inl e"
  shows "fst (update_dashboard lib l (Some c)) = replicate 5 go_Figure
         \<and> snd (update_dashboard lib l (Some c)) = ''Error processing file: '' @ str_exn e
         \<and> snd (update_dashboard lib l (Some c)) \<noteq> []"
  using assms by (simp add: update_dashboard_def)

lemma update_dashboard_success:
  assumes "c \<noteq> []" and "try_body lib l c = Inr figs"
  shows "update_dashboard lib l (Some c) = (figs, [])"
  using assms by (simp add: update_dashboard_def)

lemma split_no_separator: "sep \<notin> set s \<Longrightarrow> split sep s = [s]"
  by (induction s) auto

lemma split_data_uri:
  "CHR '','' \<notin> set body \<Longrightarrow> split CHR '','' (data_uri body) = [''data:application/json;base64'', body]"
  by (simp add: data_uri_def split_no_separator)

lemma process_raises_build_raises:
  "process_album_data lib v = Inl e \<Longrightarrow> build_figures lib v = Inl e"
  by (simp add: build_figures_def)

lemma no_record_collection_raises:
  assumes "no_record_collection v"
  shows "\<exists>e. process_album_data lib v = Inl e"
proof (cases v)
  case (JArr xs)
  with assms obtain x xs' where xs: "xs = x # xs'" by (cases xs) auto
  show ?thesis
  proof (cases "is_mapping x")
    case True
    with assms JArr xs have "list_ex finite_or_bool xs'" by simp
    from as_records_uniterable [OF this, of lib] obtain e where e: "as_records lib xs' = Inl e"
      by blast
    from True obtain kvs where "x = JObj kvs" by (cases x) auto
    with e True JArr xs show ?thesis
      by (simp add: process_album_data_def)
  next
    case False
    with JArr xs show ?thesis
      by (auto simp: process_album_data_def getitem_def split: list.splits)
  qed
next
  case (JObj kvs)
  have "filter is_listlike (map (cell kvs) (unique_first (map fst kvs))) = []"
       "filter is_mapping (map (cell kvs) (unique_first (map fst kvs))) = []"
    using assms JObj
    by (auto simp: filter_empty_conv set_unique_first cell_def scalar_def list_all_iff
             split: option.splits dest!: map_of_SomeD)
  then show ?thesis
    using JObj by (auto simp: process_album_data_def frame_of_dict_def Let_def getitem_def)
qed (auto simp: process_album_data_def getitem_def)

lemma distinct_singleton: "distinct xs \<Longrightarrow> set xs = {n} \<Longrightarrow> xs = [n]"
proof (cases xs)
  case Nil
  assume "set xs = {n}"
  with Nil show ?thesis by simp
next
  case (Cons a as)
  assume "distinct xs" "set xs = {n}"
  with Cons have "a = n" "set as \<subseteq> {n}" "n \<notin> set as" by auto
  then have "as = []" by (cases as) auto
  with Cons \<open>a = n\<close> show ?thesis by simp
qed

lemma frame_of_dict_columns:
  assumes ne: "kvs \<noteq> []"
      and cols: "\<forall>kv\<in>set kvs. \<exists>xs. snd kv = JArr xs \<and> length xs = n"
  shows "\<exists>df. frame_of_dict lib kvs = Inr df
            \<and> (\<forall>k xs. map_of kvs k = Some (JArr xs) \<longrightarrow> getitem df k = Inr xs)"
proof -
  let ?keys = "unique_first (map fst kvs)"
  let ?vals = "map (cell kvs) ?keys"
  have keys: "?keys \<noteq> []"
    using ne set_unique_first [of "map fst kvs"] by (cases kvs) auto
  have val: "\<exists>xs. cell kvs k = JArr xs \<and> length xs = n" if "k \<in> set ?keys" for k
  proof -
    from that have "k \<in> fst ` set kvs" by (simp add: set_unique_first)
    then obtain v where "map_of kvs k = Some v"
      by (cases "map_of kvs k") (auto simp: map_of_eq_None_iff)
    moreover from this have "(k, v) \<in> set kvs" by (rule map_of_SomeD)
    ultimately show ?thesis using cols by (auto simp: cell_def)
  qed
  have shape: "is_listlike (cell kvs k) \<and> \<not> is_mapping (cell kvs k)" if "k \<in> set ?keys" for k
    using val [OF that] by auto
  have lists: "filter is_listlike ?vals = ?vals"
    using shape by (simp add: filter_id_conv)
  have dicts: "filter is_mapping ?vals = []"
    using shape by (simp add: filter_empty_conv)
  have lens: "set (map (length \<circ> elements) ?vals) = {n}"
  proof -
    from keys obtain k where "k \<in> set ?keys" by (cases ?keys) auto
    moreover have "(length \<circ> elements) (cell kvs k) = n" if "k \<in> set ?keys" for k
      using val [OF that] by auto
    ultimately show ?thesis by (auto simp: image_iff)
  qed
  have rd: "remdups (map (length \<circ> elements) ?vals) = [n]"
    by (rule distinct_singleton) (simp_all only: distinct_remdups set_remdups lens)
  have vals: "?vals \<noteq> []" using keys by simp
  let ?df = "\<lparr> nrows = n,
              columns = map (\<lambda>k. (k, (case cell kvs k of
                                         JArr xs \<Rightarrow> xs
                                       | JObj d \<Rightarrow> map (cell d) []
                                       | v \<Rightarrow> replicate n v))) ?keys \<rparr>"
  have idx: "unique_first (concat (map (map fst \<circ> items) [])) = ([] :: string list)"
    by (simp add: unique_first_def)
  have df: "frame_of_dict lib kvs = Inr ?df"
    unfolding frame_of_dict_def Let_def lists dicts rd idx
    using keys vals by (simp split: json.splits)
  have "getitem ?df k = Inr xs" if "map_of kvs k = Some (JArr xs)" for k xs
  proof -
    from that have "k \<in> set ?keys"
      by (auto simp: set_unique_first dest!: map_of_SomeD intro!: image_eqI [of _ fst])
    with that show ?thesis by (simp add: getitem_def map_of_keyed cell_def)
  qed
  with df show ?thesis by blast
qed

section \<open>Facts about the sample inputs\<close>

lemma sample_bodies_no_comma:
  "CHR '','' \<notin> set empty_body" "CHR '','' \<notin> set scenario_body"
  "CHR '','' \<notin> set missing_year_body" "CHR '','' \<notin> set no_year_body"
  "CHR '','' \<notin> set mixed_year_body" "CHR '','' \<notin> set column_mapping_body"
  "CHR '','' \<notin> set scalar_body" "CHR '','' \<notin> set empty_mapping_body"
  "CHR '','' \<notin> set open_brace_body" "CHR '','' \<notin> set unpadded_body"
  "CHR '','' \<notin> set number_list_body" "CHR '','' \<notin> set number_after_record_body"
  "CHR '','' \<notin> set flat_mapping_body"
  by (simp_all add: empty_body_def scenario_body_def missing_year_body_def no_year_body_def
        mixed_year_body_def column_mapping_body_def scalar_body_def empty_mapping_body_def
        open_brace_body_def unpadded_body_def number_list_body_def
        number_after_record_body_def flat_mapping_body_def)

lemma sample_loads_values:
  "sample_loads empty_body = Inr (JArr (map JObj []))"
  "sample_loads scenario_body = Inr (JArr (map JObj scenario_records))"
  "sample_loads missing_year_body = Inr (JArr (map JObj missing_year_records))"
  "sample_loads no_year_body = Inr (JArr (map JObj no_year_records))"
  "sample_loads mixed_year_body = Inr (JArr (map JObj mixed_year_records))"
  "sample_loads column_mapping_body = Inr (JObj column_mapping)"
  "sample_loads scalar_body = Inr (JNum (Fin 42))"
  "sample_loads empty_mapping_body = Inr (JObj [])"
  "sample_loads open_brace_body
     = Inl (ValueError ''Expecting property name enclosed in double quotes: line 1 column 2 (char 1)'')"
  "sample_loads unpadded_body = Inl (ValueError ''Incorrect padding'')"
  "sample_loads number_list_body = Inr (JArr [JNum (Fin 7)])"
  "sample_loads number_after_record_body = Inr (JArr [JObj flat_mapping, JNum (Fin 7)])"
  "sample_loads flat_mapping_body = Inr (JObj flat_mapping)"
  by code_simp+

lemma scenario_figures:
  "build_figures sample_library (JArr (map JObj scenario_records)) = Inr [
     Figure [Scatter [JStr ''A'', JStr ''C''] [Fin 3, Fin 7] None ''lines+markers'']
       ''Chart Performance Over Time'',
     Figure [Bar [KNum (Fin 2000), KNum (Fin 2001)] [2, 1]] ''Album Release Frequency'',
     Figure [Scatter [JNum (Fin 2000), JNum (Fin 2001)] [Fin 3, Fin 7]
               (Some [JStr ''A'', JStr ''C'']) ''markers''] ''Year vs Chart Position'',
     Figure [Heatmap [[Fin 3], [Fin 7]] [JNum (Fin 2000), JNum (Fin 2001)] [''Chart Position'']]
       ''Year vs Chart Performance'',
     Figure [Treemap [''Top 5'', ''No Chart'', ''Top 10''] [[], [], []] [1, 1, 1]]
       ''Album Performance Distribution'']"
  by code_simp

lemma missing_year_figures:
  "build_figures sample_library (JArr (map JObj missing_year_records)) = Inr [
     Figure [Scatter [JStr ''A'', JStr ''B''] [Fin 3, Fin 7] None ''lines+markers'']
       ''Chart Performance Over Time'',
     Figure [Bar [KNum (Fin 2000)] [1]] ''Album Release Frequency'',
     Figure [Scatter [JNum (Fin 2000), JNum NaN] [Fin 3, Fin 7]
               (Some [JStr ''A'', JStr ''B'']) ''markers''] ''Year vs Chart Position'',
     Figure [Heatmap [[Fin 3], [Fin 7]] [JNum (Fin 2000), JNum NaN] [''Chart Position'']]
       ''Year vs Chart Performance'',
     Figure [Treemap [''Top 5'', ''Top 10''] [[], []] [1, 1]]
       ''Album Performance Distribution'']"
  by code_simp

section \<open>The claims\<close>










text \<open>
  C5, as the code has it. When the run succeeds on a collection of records whose
  years are scalars, the counts of the release-frequency bars add up to the number
  of records whose year is not missing, charting or not. Only in a table whose
  records all have their year is that the number of records.
\<close>

theorem release_frequency_counts_every_record:
  assumes "build_figures lib (JArr (map JObj rows)) = Inr figs"
      and "\<forall>r\<in>set rows. scalar (cell r ''year'')"
  shows "\<exists>years counts. figs ! 1 = Figure [Bar years counts] ''Album Release Frequency''
           \<and> length years = length counts
           \<and> sum_list counts = length (filter (\<lambda>r. \<not> isna (cell r ''year'')) rows)
           \<and> ((\<forall>r\<in>set rows. \<not> isna (cell r ''year'')) \<longrightarrow> sum_list counts = length rows)"
proof -
  let ?col = "map (\<lambda>r. cell r ''year'') rows"
  let ?counts = "value_counts (map hash_key (filter (\<lambda>v. \<not> isna v) ?col))"
  have sc: "\<forall>v\<in>set ?col. scalar v" using assms(2) by simp
  have c: "value_counts_column lib ?col = Inr ?counts"
    using sc by (rule value_counts_scalars)
  from assms(1) obtain freq where
      s: "sort_index lib ?counts = Inr freq"
      and b: "figs ! 1 = Figure [Bar (map fst freq) (map snd freq)] ''Album Release Frequency''"
    unfolding build_figures_records c
    by (auto split: if_splits sum.splits)
  have "length (filter (\<lambda>v. \<not> isna v) ?col)
          = length (filter (\<lambda>r. \<not> isna (cell r ''year'')) rows)"
    by (simp add: filter_map o_def)
  with sum_sort_index_scalars [OF s scalar_counts_no_container [OF sc]]
  have t: "sum_list (map snd freq) = length (filter (\<lambda>r. \<not> isna (cell r ''year'')) rows)"
    by (simp add: sum_value_counts)
  have "(\<forall>r\<in>set rows. \<not> isna (cell r ''year'')) \<longrightarrow> sum_list (map snd freq) = length rows"
    by (simp add: t filter_id_conv)
  with b t show ?thesis by auto
qed

theorem release_frequency_counts_every_record_witness:
  "list_all (\<lambda>r. scalar (cell r ''year'') \<and> \<not> isna (cell r ''year'')) scenario_records
   \<and> list_all (\<lambda>r. scalar (cell r ''year'')) missing_year_records
   \<and> (\<exists>figs years counts.
        build_figures sample_library (JArr (map JObj scenario_records)) = Inr figs
        \<and> figs ! 1 = Figure [Bar years counts] ''Album Release Frequency''
        \<and> length years = length counts
        \<and> sum_list counts = length scenario_records
        \<and> length scenario_records = 3)
   \<and> (\<exists>figs years counts.
        build_figures sample_library (JArr (map JObj missing_year_records)) = Inr figs
        \<and> figs ! 1 = Figure [Bar years counts] ''Album Release Frequency''
        \<and> length years = length counts
        \<and> sum_list counts = length (filter (\<lambda>r. \<not> isna (cell r ''year'')) missing_year_records)
        \<and> length (filter (\<lambda>r. \<not> isna (cell r ''year'')) missing_year_records) = 1)"
proof -
  have y: "list_all (\<lambda>r. scalar (cell r ''year'') \<and> \<not> isna (cell r ''year'')) scenario_records"
    by code_simp
  have m: "list_all (\<lambda>r. scalar (cell r ''year'')) missing_year_records"
    by code_simp
  have n: "length scenario_records = 3" by (simp add: scenario_records_def)
  have k: "length (filter (\<lambda>r. \<not> isna (cell r ''year'')) missing_year_records) = 1"
    by code_simp
  from y have ys: "\<forall>r\<in>set scenario_records. scalar (cell r ''year'')"
      and yn: "\<forall>r\<in>set scenario_records. \<not> isna (cell r ''year'')"
    by (simp_all add: list_all_iff)
  from m have ms: "\<forall>r\<in>set missing_year_records. scalar (cell r ''year'')"
    by (simp add: list_all_iff)
  from release_frequency_counts_every_record [OF scenario_figures ys] scenario_figures yn n
  have 1: "\<exists>figs years counts.
        build_figures sample_library (JArr (map JObj scenario_records)) = Inr figs
        \<and> figs ! 1 = Figure [Bar years counts] ''Album Release Frequency''
        \<and> length years = length counts
        \<and> sum_list counts = length scenario_records
        \<and> length scenario_records = 3"
    by blast
  from release_frequency_counts_every_record [OF missing_year_figures ms] missing_year_figures k
  have 2: "\<exists>figs years counts.
        build_figures sample_library (JArr (map JObj missing_year_records)) = Inr figs
        \<and> figs ! 1 = Figure [Bar years counts] ''Album Release Frequency''
        \<and> length years = length counts
        \<and> sum_list counts = length (filter (\<lambda>r. \<not> isna (cell r ''year'')) missing_year_records)
        \<and> length (filter (\<lambda>r. \<not> isna (cell r ''year'')) missing_year_records) = 1"
    by blast
  from y m 1 2 show ?thesis by blast
qed

text \<open>
  C5 as worded fails: of two records, the second without a \<^verbatim>\<open>year\<close>, the
  release-frequency bars count one.
\<close>

theorem missing_year_is_not_counted:
  "\<exists>figs years counts.
      build_figures sample_library (JArr (map JObj missing_year_records)) = Inr figs
      \<and> figs ! 1 = Figure [Bar years counts] ''Album Release Frequency''
      \<and> sum_list counts = 1
      \<and> length missing_year_records = 2"
proof -
  have "length missing_year_records = 2" by (simp add: missing_year_records_def)
  with missing_year_figures show ?thesis by simp
qed

text \<open>
  C6. When the run succeeds on a collection of records, the line trace pairs, in the
  order of the collection, the album and the position of exactly the records whose
  normalized position is not missing.
\<close>

theorem chart_performance_series_in_table_order:
  assumes "build_figures lib (JArr (map JObj rows)) = Inr figs"
  shows "\<exists>x y. figs ! 0 = Figure [Scatter x y None ''lines+markers''] ''Chart Performance Over Time''
           \<and> length x = length y
           \<and> zip x y = map (\<lambda>r. (cell r ''album'', coerce lib (cell r ''US_peak_chart_post'')))
                          (filter (\<lambda>r. \<not> isna_num (coerce lib (cell r ''US_peak_chart_post''))) rows)"
proof -
  let ?ch = "filter (\<lambda>r. \<not> isna_num (coerce lib (cell r ''US_peak_chart_post''))) rows"
  from assms have
    "figs ! 0 = Figure [Scatter (map (\<lambda>r. cell r ''album'') ?ch)
                                (map (\<lambda>r. coerce lib (cell r ''US_peak_chart_post'')) ?ch)
                                None ''lines+markers''] ''Chart Performance Over Time''"
    unfolding build_figures_records
    by (auto split: if_splits sum.splits)
  moreover have "zip (map (\<lambda>r. cell r ''album'') ?ch)
                     (map (\<lambda>r. coerce lib (cell r ''US_peak_chart_post'')) ?ch)
                 = map (\<lambda>r. (cell r ''album'', coerce lib (cell r ''US_peak_chart_post''))) ?ch"
    by (simp add: zip_map_map zip_same_conv_map)
  ultimately show ?thesis by auto
qed

theorem chart_performance_series_in_table_order_witness:
  "\<exists>figs x y. build_figures sample_library (JArr (map JObj scenario_records)) = Inr figs
      \<and> figs ! 0 = Figure [Scatter x y None ''lines+markers''] ''Chart Performance Over Time''
      \<and> length x = length y
      \<and> zip x y = [(JStr ''A'', Fin 3), (JStr ''C'', Fin 7)]"
proof -
  have "map (\<lambda>r. (cell r ''album'', coerce sample_library (cell r ''US_peak_chart_post'')))
          (filter (\<lambda>r. \<not> isna_num (coerce sample_library (cell r ''US_peak_chart_post'')))
             scenario_records)
        = [(JStr ''A'', Fin 3), (JStr ''C'', Fin 7)]"
    by code_simp
  with chart_performance_series_in_table_order [OF scenario_figures] scenario_figures
  show ?thesis by auto
qed

text \<open>
  C7. On the scenario of the specification, whose charting records are A (2000, 3)
  and C (2001, 7), the heatmap trace gets the two years as \<open>x\<close>, one label as \<open>y\<close>,
  and as \<open>z\<close> two rows of one cell each: \<^verbatim>\<open>reshape(-1, 1)\<close> makes a column, where one
  row of two cells would match \<open>x\<close> and \<open>y\<close>.
\<close>

theorem heatmap_grid_one_cell_per_row:
  "map_sum id (\<lambda>figs. figs ! 3)
     (build_figures sample_library (JArr (map JObj scenario_records)))
   = Inr (Figure [Heatmap [[Fin 3], [Fin 7]] [JNum (Fin 2000), JNum (Fin 2001)]
                    [''Chart Position'']]
                 ''Year vs Chart Performance'')"
  by (simp add: scenario_figures)




text \<open>
  C9, as the code has it. The run ends in the handler, with five empty figures and
  a message that is not empty, when the decoder raises, and when it returns a
  scalar, a list whose first element is not a mapping, a list with a finite number
  or a boolean after the first element, or a single mapping whose values are all
  scalars. A single mapping from field names to lists is not refused: when the
  lists are equally long and not empty, hold \<^verbatim>\<open>null\<close>, strings and finite numbers
  that a \<^verbatim>\<open>float64\<close> holds exactly, the three fields the code reads are among the
  names and every year is missing or a finite number, the run succeeds with five
  figures, none empty, and the empty message.
\<close>

theorem unusable_payload_ends_in_error_channel:
  assumes "split CHR '','' c = [t, body]"
  shows "((\<exists>e. loads body = Inl e) \<or> (\<exists>v. loads body = Inr v \<and> no_record_collection v) \<longrightarrow>
            fst (update_dashboard lib loads (Some c)) = replicate 5 go_Figure
          \<and> snd (update_dashboard lib loads (Some c)) \<noteq> [])
       \<and> (loads body = Inr (JObj kvs) \<and> 0 < n
          \<and> (\<forall>kv\<in>set kvs. \<exists>xs. snd kv = JArr xs \<and> length xs = n \<and> list_all plain xs)
          \<and> ''album'' \<in> set (map fst kvs) \<and> ''year'' \<in> set (map fst kvs)
          \<and> ''US_peak_chart_post'' \<in> set (map fst kvs)
          \<and> list_all year_or_missing (elements (cell kvs ''year'')) \<longrightarrow>
            (\<exists>figs. update_dashboard lib loads (Some c) = (figs, [])
                \<and> length figs = 5 \<and> go_Figure \<notin> set figs))"
proof (intro conjI impI)
  have c: "c \<noteq> []" using assms by (rule two_parts_nonempty)
  note tb = try_body_two_parts [OF assms, of lib loads]
  {
    assume h: "(\<exists>e. loads body = Inl e) \<or> (\<exists>v. loads body = Inr v \<and> no_record_collection v)"
    have "\<exists>e. try_body lib loads c = Inl e"
    proof (cases "loads body")
      case (Inl e)
      then show ?thesis by (simp add: tb)
    next
      case (Inr v)
      with h have "no_record_collection v" by auto
      from no_record_collection_raises [OF this, of lib] obtain e
        where "process_album_data lib v = Inl e" by blast
      then have "build_figures lib v = Inl e" by (rule process_raises_build_raises)
      with Inr show ?thesis by (simp add: tb)
    qed
    then obtain e where "try_body lib loads c = Inl e" by blast
    from update_dashboard_failure [OF c this]
    show "fst (update_dashboard lib loads (Some c)) = replicate 5 go_Figure"
      and "snd (update_dashboard lib loads (Some c)) \<noteq> []"
      by simp_all
  }
  {
    assume h: "loads body = Inr (JObj kvs) \<and> 0 < n
          \<and> (\<forall>kv\<in>set kvs. \<exists>xs. snd kv = JArr xs \<and> length xs = n \<and> list_all plain xs)
          \<and> ''album'' \<in> set (map fst kvs) \<and> ''year'' \<in> set (map fst kvs)
          \<and> ''US_peak_chart_post'' \<in> set (map fst kvs)
          \<and> list_all year_or_missing (elements (cell kvs ''year''))"
    then have l: "loads body = Inr (JObj kvs)"
        and colsp: "\<forall>kv\<in>set kvs. \<exists>xs. snd kv = JArr xs \<and> length xs = n \<and> list_all plain xs"
        and ka: "''album'' \<in> set (map fst kvs)"
        and ky: "''year'' \<in> set (map fst kvs)"
        and kp: "''US_peak_chart_post'' \<in> set (map fst kvs)"
        and yl: "list_all year_or_missing (elements (cell kvs ''year''))"
      by simp_all
    from ka have ne: "kvs \<noteq> []" by (cases kvs) simp_all
    have cols: "\<forall>kv\<in>set kvs. \<exists>xs. snd kv = JArr xs \<and> length xs = n"
    proof
      fix kv assume "kv \<in> set kvs"
      with colsp obtain xs where "snd kv = JArr xs \<and> length xs = n \<and> list_all plain xs" by blast
      then show "\<exists>xs. snd kv = JArr xs \<and> length xs = n" by blast
    qed
    have col: "\<exists>xs. map_of kvs k = Some (JArr xs)" if "k \<in> set (map fst kvs)" for k
    proof -
      from that have "map_of kvs k \<noteq> None" by (simp only: map_of_eq_None_iff set_map not_not)
      then obtain v where v: "map_of kvs k = Some v" by blast
      then have "(k, v) \<in> set kvs" by (rule map_of_SomeD)
      with cols obtain xs where "snd (k, v) = JArr xs \<and> length xs = n" by blast
      then have "v = JArr xs" by simp
      with v show ?thesis by simp
    qed
    from col [OF ka] obtain ac where a: "map_of kvs ''album'' = Some (JArr ac)" by blast
    from col [OF ky] obtain yc where y: "map_of kvs ''year'' = Some (JArr yc)" by blast
    from col [OF kp] obtain pc where p: "map_of kvs ''US_peak_chart_post'' = Some (JArr pc)" by blast
    from frame_of_dict_columns [OF ne cols, of lib] obtain df where
        df: "frame_of_dict lib kvs = Inr df"
        and g: "\<And>k xs. map_of kvs k = Some (JArr xs) \<Longrightarrow> getitem df k = Inr xs"
      by blast
    have pr: "process_album_data lib (JObj kvs)
                = Inr \<lparr> frame = df, US_peak_chart_post = to_numeric lib pc \<rparr>"
      by (simp add: process_album_data_def df g [OF p])
    from y yl have ym: "\<forall>c\<in>set yc. year_or_missing c"
      by (simp add: cell_def list_all_iff)
    have ga: "getitem (frame \<lparr> frame = df, US_peak_chart_post = to_numeric lib pc \<rparr>) ''album''
                = Inr ac"
      using g [OF a] by simp
    have gy: "getitem (frame \<lparr> frame = df, US_peak_chart_post = to_numeric lib pc \<rparr>) ''year''
                = Inr yc"
      using g [OF y] by simp
    from build_figures_succeeds [OF pr ga gy ym]
    obtain figs where b: "build_figures lib (JObj kvs) = Inr figs" by blast
    from l b have "try_body lib loads c = Inr figs" by (simp add: tb)
    from update_dashboard_success [OF c this] figures_populated [OF b]
    show "\<exists>figs. update_dashboard lib loads (Some c) = (figs, [])
                \<and> length figs = 5 \<and> go_Figure \<notin> set figs"
      by blast
  }
qed

theorem unusable_payload_ends_in_error_channel_witness:
  "split CHR '','' (data_uri open_brace_body) = [''data:application/json;base64'', open_brace_body]
   \<and> (\<exists>e. sample_loads open_brace_body = Inl e)
   \<and> fst (update_dashboard sample_library sample_loads (Some (data_uri open_brace_body))) = replicate 5 go_Figure
   \<and> snd (update_dashboard sample_library sample_loads (Some (data_uri open_brace_body))) \<noteq> []
   \<and> split CHR '','' (data_uri unpadded_body) = [''data:application/json;base64'', unpadded_body]
   \<and> (\<exists>e. sample_loads unpadded_body = Inl e)
   \<and> fst (update_dashboard sample_library sample_loads (Some (data_uri unpadded_body))) = replicate 5 go_Figure
   \<and> snd (update_dashboard sample_library sample_loads (Some (data_uri unpadded_body))) \<noteq> []
   \<and> split CHR '','' (data_uri scalar_body) = [''data:application/json;base64'', scalar_body]
   \<and> sample_loads scalar_body = Inr (JNum (Fin 42))
   \<and> no_record_collection (JNum (Fin 42))
   \<and> fst (update_dashboard sample_library sample_loads (Some (data_uri scalar_body))) = replicate 5 go_Figure
   \<and> snd (update_dashboard sample_library sample_loads (Some (data_uri scalar_body))) \<noteq> []
   \<and> split CHR '','' (data_uri number_list_body) = [''data:application/json;base64'', number_list_body]
   \<and> sample_loads number_list_body = Inr (JArr [JNum (Fin 7)])
   \<and> no_record_collection (JArr [JNum (Fin 7)])
   \<and> fst (update_dashboard sample_library sample_loads (Some (data_uri number_list_body))) = replicate 5 go_Figure
   \<and> snd (update_dashboard sample_library sample_loads (Some (data_uri number_list_body))) \<noteq> []
   \<and> split CHR '','' (data_uri number_after_record_body) = [''data:application/json;base64'', number_after_record_body]
   \<and> sample_loads number_after_record_body = Inr (JArr [JObj flat_mapping, JNum (Fin 7)])
   \<and> no_record_collection (JArr [JObj flat_mapping, JNum (Fin 7)])
   \<and> fst (update_dashboard sample_library sample_loads (Some (data_uri number_after_record_body))) = replicate 5 go_Figure
   \<and> snd (update_dashboard sample_library sample_loads (Some (data_uri number_after_record_body))) \<noteq> []
   \<and> split CHR '','' (data_uri flat_mapping_body) = [''data:application/json;base64'', flat_mapping_body]
   \<and> sample_loads flat_mapping_body = Inr (JObj flat_mapping)
   \<and> no_record_collection (JObj flat_mapping)
   \<and> fst (update_dashboard sample_library sample_loads (Some (data_uri flat_mapping_body))) = replicate 5 go_Figure
   \<and> snd (update_dashboard sample_library sample_loads (Some (data_uri flat_mapping_body))) \<noteq> []
   \<and> split CHR '','' (data_uri empty_mapping_body) = [''data:application/json;base64'', empty_mapping_body]
   \<and> sample_loads empty_mapping_body = Inr (JObj [])
   \<and> no_record_collection (JObj [])
   \<and> fst (update_dashboard sample_library sample_loads (Some (data_uri empty_mapping_body))) = replicate 5 go_Figure
   \<and> snd (update_dashboard sample_library sample_loads (Some (data_uri empty_mapping_body))) \<noteq> []
   \<and> split CHR '','' (data_uri column_mapping_body) = [''data:application/json;base64'', column_mapping_body]
   \<and> sample_loads column_mapping_body = Inr (JObj column_mapping)
   \<and> list_all (\<lambda>kv. \<exists>xs. snd kv = JArr xs \<and> length xs = 1 \<and> list_all plain xs) column_mapping
   \<and> ''album'' \<in> set (map fst column_mapping)
   \<and> ''year'' \<in> set (map fst column_mapping)
   \<and> ''US_peak_chart_post'' \<in> set (map fst column_mapping)
   \<and> list_all year_or_missing (elements (cell column_mapping ''year''))
   \<and> (\<exists>figs. update_dashboard sample_library sample_loads (Some (data_uri column_mapping_body)) = (figs, [])
          \<and> length figs = 5 \<and> go_Figure \<notin> set figs)"
proof -
  note s0 = split_data_uri [OF sample_bodies_no_comma(9)]
  have h0: "\<exists>e. sample_loads open_brace_body = Inl e" using sample_loads_values(9) by blast
  from unusable_payload_ends_in_error_channel
         [where lib = sample_library and loads = sample_loads and body = open_brace_body
            and kvs = "[]" and n = 0, OF s0] h0
  have r0: "fst (update_dashboard sample_library sample_loads (Some (data_uri open_brace_body))) = replicate 5 go_Figure
     \<and> snd (update_dashboard sample_library sample_loads (Some (data_uri open_brace_body))) \<noteq> []"
    by blast
  note s1 = split_data_uri [OF sample_bodies_no_comma(10)]
  have h1: "\<exists>e. sample_loads unpadded_body = Inl e" using sample_loads_values(10) by blast
  from unusable_payload_ends_in_error_channel
         [where lib = sample_library and loads = sample_loads and body = unpadded_body
            and kvs = "[]" and n = 0, OF s1] h1
  have r1: "fst (update_dashboard sample_library sample_loads (Some (data_uri unpadded_body))) = replicate 5 go_Figure
     \<and> snd (update_dashboard sample_library sample_loads (Some (data_uri unpadded_body))) \<noteq> []"
    by blast
  note s2 = split_data_uri [OF sample_bodies_no_comma(7)]
  have n2: "no_record_collection (JNum (Fin 42))" by code_simp
  from sample_loads_values(7) n2
  have h2: "\<exists>v. sample_loads scalar_body = Inr v \<and> no_record_collection v" by blast
  from unusable_payload_ends_in_error_channel
         [where lib = sample_library and loads = sample_loads and body = scalar_body
            and kvs = "[]" and n = 0, OF s2] h2
  have r2: "fst (update_dashboard sample_library sample_loads (Some (data_uri scalar_body))) = replicate 5 go_Figure
     \<and> snd (update_dashboard sample_library sample_loads (Some (data_uri scalar_body))) \<noteq> []"
    by blast
  note s3 = split_data_uri [OF sample_bodies_no_comma(11)]
  have n3: "no_record_collection (JArr [JNum (Fin 7)])" by code_simp
  from sample_loads_values(11) n3
  have h3: "\<exists>v. sample_loads number_list_body = Inr v \<and> no_record_collection v" by blast
  from unusable_payload_ends_in_error_channel
         [where lib = sample_library and loads = sample_loads and body = number_list_body
            and kvs = "[]" and n = 0, OF s3] h3
  have r3: "fst (update_dashboard sample_library sample_loads (Some (data_uri number_list_body))) = replicate 5 go_Figure
     \<and> snd (update_dashboard sample_library sample_loads (Some (data_uri number_list_body))) \<noteq> []"
    by blast
  note s4 = split_data_uri [OF sample_bodies_no_comma(12)]
  have n4: "no_record_collection (JArr [JObj flat_mapping, JNum (Fin 7)])" by code_simp
  from sample_loads_values(12) n4
  have h4: "\<exists>v. sample_loads number_after_record_body = Inr v \<and> no_record_collection v" by blast
  from unusable_payload_ends_in_error_channel
         [where lib = sample_library and loads = sample_loads and body = number_after_record_body
            and kvs = "[]" and n = 0, OF s4] h4
  have r4: "fst (update_dashboard sample_library sample_loads (Some (data_uri number_after_record_body))) = replicate 5 go_Figure
     \<and> snd (update_dashboard sample_library sample_loads (Some (data_uri number_after_record_body))) \<noteq> []"
    by blast
  note s5 = split_data_uri [OF sample_bodies_no_comma(13)]
  have n5: "no_record_collection (JObj flat_mapping)" by code_simp
  from sample_loads_values(13) n5
  have h5: "\<exists>v. sample_loads flat_mapping_body = Inr v \<and> no_record_collection v" by blast
  from unusable_payload_ends_in_error_channel
         [where lib = sample_library and loads = sample_loads and body = flat_mapping_body
            and kvs = "[]" and n = 0, OF s5] h5
  have r5: "fst (update_dashboard sample_library sample_loads (Some (data_uri flat_mapping_body))) = replicate 5 go_Figure
     \<and> snd (update_dashboard sample_library sample_loads (Some (data_uri flat_mapping_body))) \<noteq> []"
    by blast
  note s6 = split_data_uri [OF sample_bodies_no_comma(8)]
  have n6: "no_record_collection (JObj [])" by code_simp
  from sample_loads_values(8) n6
  have h6: "\<exists>v. sample_loads empty_mapping_body = Inr v \<and> no_record_collection v" by blast
  from unusable_payload_ends_in_error_channel
         [where lib = sample_library and loads = sample_loads and body = empty_mapping_body
            and kvs = "[]" and n = 0, OF s6] h6
  have r6: "fst (update_dashboard sample_library sample_loads (Some (data_uri empty_mapping_body))) = replicate 5 go_Figure
     \<and> snd (update_dashboard sample_library sample_loads (Some (data_uri empty_mapping_body))) \<noteq> []"
    by blast
  note sc = split_data_uri [OF sample_bodies_no_comma(6)]
  have cl: "list_all (\<lambda>kv. \<exists>xs. snd kv = JArr xs \<and> length xs = 1 \<and> list_all plain xs) column_mapping"
    by (simp add: column_mapping_def exact64_def)
  have ka: "''album'' \<in> set (map fst column_mapping)" by (simp add: column_mapping_def)
  have ky: "''year'' \<in> set (map fst column_mapping)" by (simp add: column_mapping_def)
  have kp: "''US_peak_chart_post'' \<in> set (map fst column_mapping)"
    by (simp add: column_mapping_def)
  have yl: "list_all year_or_missing (elements (cell column_mapping ''year''))" by code_simp
  from cl have cb: "\<forall>kv\<in>set column_mapping.
                      \<exists>xs. snd kv = JArr xs \<and> length xs = 1 \<and> list_all plain xs"
    by (simp only: list_all_iff)
  from unusable_payload_ends_in_error_channel
         [where lib = sample_library and loads = sample_loads and body = column_mapping_body
            and kvs = column_mapping and n = 1, OF sc]
       sample_loads_values(6) cb ka ky kp yl
  have rc: "\<exists>figs. update_dashboard sample_library sample_loads (Some (data_uri column_mapping_body)) = (figs, [])
          \<and> length figs = 5 \<and> go_Figure \<notin> set figs"
    by simp
  from s0 h0 r0 s1 h1 r1 s2 n2 r2 s3 n3 r3 s4 n4 r4 s5 n5 r5 s6 n6 r6 sc cl ka ky kp yl rc
       sample_loads_values(6,7,8,11,12,13)
  show ?thesis
    by (intro conjI) (assumption | simp)+
qed

text \<open>
  C9 as worded fails: a single mapping from field names to equally long lists is
  read column by column, and the run succeeds.
\<close>

theorem single_mapping_is_accepted:
  "update_dashboard sample_library sample_loads (Some (data_uri column_mapping_body))
   = ([Figure [Scatter [JStr ''A''] [Fin 3] None ''lines+markers''] ''Chart Performance Over Time'',
       Figure [Bar [KNum (Fin 2000)] [1]] ''Album Release Frequency'',
       Figure [Scatter [JNum (Fin 2000)] [Fin 3] (Some [JStr ''A'']) ''markers'']
         ''Year vs Chart Position'',
       Figure [Heatmap [[Fin 3]] [JNum (Fin 2000)] [''Chart Position'']]
         ''Year vs Chart Performance'',
       Figure [Treemap [''Top 5''] [[]] [1]] ''Album Performance Distribution''],
      [])"
  by code_simp

text \<open>
  C10. Without contents (\<^verbatim>\<open>None\<close> or the empty string) the callback returns five
  empty figures and the fixed prompt, whatever the libraries and the decoder are:
  they are not consulted.
\<close>

theorem no_upload_prompt:
  "update_dashboard lib loads None = (replicate 5 go_Figure, ''Please upload a JSON file'')
   \<and> update_dashboard lib loads (Some []) = (replicate 5 go_Figure, ''Please upload a JSON file'')
   \<and> snd (update_dashboard lib loads None) \<noteq> []
   \<and> snd (update_dashboard lib loads (Some [])) \<noteq> []"
  by (simp add: update_dashboard_def)

end
